theory Spec2Isabelle
  imports Complex_Main
begin

section \<open>Data model\<close>

text \<open>
  The entity simulation of the runner lives in two React components:
  \<^verbatim>\<open>LevelManager\<close> (entity store, stepping, collision, spawning) and
  \<^verbatim>\<open>Player\<close> (lane, jump state, invincibility).  JavaScript numbers are
  modelled as reals, optional object fields as \<open>option\<close>, and every call into a
  collaborator (store callbacks, window events, audio) as an element of an event list,
  in the order the code issues it.
\<close>

datatype ObjectType = OBSTACLE | GEM | LETTER | SHOP_PORTAL | ALIEN | MISSILE

datatype GameStatus = MENU | PLAYING | SHOP | GAME_OVER | VICTORY

type_synonym vec3 = "real \<times> real \<times> real"

definition vx :: "vec3 \<Rightarrow> real" where "vx v = fst v"
definition vy :: "vec3 \<Rightarrow> real" where "vy v = fst (snd v)"
definition vz :: "vec3 \<Rightarrow> real" where "vz v = snd (snd v)"

text \<open>
  \<^verbatim>\<open>GameObject\<close>: the fields the two components read and write.  The
  \<^verbatim>\<open>id\<close> comes from \<^verbatim>\<open>uuidv4()\<close>, modelled as a counter that
  is threaded through every creation.
\<close>

record GameObject =
  obj_id :: nat
  obj_type :: ObjectType
  position :: vec3
  active :: bool
  color :: "string option"
  hasFired :: "bool option"
  points :: "int option"
  obj_value :: "string option"
  targetIndex :: "nat option"

text \<open>
  The constants and the colour table that \<^verbatim>\<open>LevelManager\<close> imports from
  \<^verbatim>\<open>types\<close>; they are parameters of the model.
\<close>

record tunables =
  LANE_WIDTH :: real
  SPAWN_DISTANCE :: real
  REMOVE_DISTANCE :: real
  GEMINI_COLORS :: "string list"

text \<open>What \<^verbatim>\<open>useStore()\<close> hands to \<^verbatim>\<open>LevelManager\<close> at a render.\<close>

record store =
  status :: GameStatus
  speed :: real
  collectedLetters :: "nat list"
  laneCount :: int
  level :: int

text \<open>
  Everything the level manager does to the outside: the \<^verbatim>\<open>player-hit\<close> and
  \<^verbatim>\<open>particle-burst\<close> window events, the store callbacks and the audio calls.
\<close>

datatype event =
    PlayerHit
  | ParticleBurst vec3 string
  | CollectGem int
  | PlayGemCollect
  | CollectLetter nat
  | PlayLetterCollect
  | OpenShop
  | SetDistance int

text \<open>The refs (and the render counter) of the \<^verbatim>\<open>LevelManager\<close> component.\<close>

record LMState =
  objectsRef :: "GameObject list"
  renderTrigger :: nat
  prevStatus :: GameStatus
  prevLevel :: int
  playerObjRef :: bool
  distanceTraveled :: real
  nextLetterDistance :: real
  nextId :: nat

text \<open>
  The inputs of one rendered frame: the frame time, the outcomes of the successive calls
  of \<^verbatim>\<open>Math.random()\<close> (call number \<open>k\<close> of the frame returns \<open>rnd k\<close>),
  whether the scene holds a \<^verbatim>\<open>PlayerGroup\<close> with a child, and the world
  position \<^verbatim>\<open>getWorldPosition\<close> reports for the attached player object.
\<close>

record frameIn =
  delta :: real
  rnd :: "nat \<Rightarrow> real"
  scenePlayer :: bool
  playerWorld :: vec3

section \<open>LevelManager\<close>

definition BASE_LETTER_INTERVAL :: real where
  "BASE_LETTER_INTERVAL = 150"

definition MISSILE_SPEED :: real where
  "MISSILE_SPEED = 25"

definition getLetterInterval :: "int \<Rightarrow> real" where
  "getLetterInterval lvl = BASE_LETTER_INTERVAL * (3 / 2) ^ nat (max 0 (lvl - 1))"

definition getRandomLane :: "real \<Rightarrow> int \<Rightarrow> int" where
  "getRandomLane r lc = (let mx = lc div 2 in \<lfloor>r * of_int (mx * 2 + 1)\<rfloor> - mx)"

subsection \<open>The status/level effect\<close>

definition shopPortal :: "nat \<Rightarrow> GameObject" where
  "shopPortal uid =
     \<lparr>obj_id = uid, obj_type = SHOP_PORTAL, position = (0, 0, -100), active = True,
      color = None, hasFired = None, points = None, obj_value = None, targetIndex = None\<rparr>"

text \<open>
  The \<^verbatim>\<open>useEffect\<close> on \<^verbatim>\<open>[status, level, setDistance]\<close>, run with
  the new status and level.
\<close>

definition levelEffect :: "tunables \<Rightarrow> GameStatus \<Rightarrow> int \<Rightarrow> LMState \<Rightarrow> LMState \<times> event list" where
  "levelEffect c st lvl s =
     (let isRestart = (st = PLAYING \<and> prevStatus s = GAME_OVER);
          isMenuReset = (st = MENU);
          isLevelUp = (lvl \<noteq> prevLevel s \<and> st = PLAYING);
          isVictoryReset = (st = PLAYING \<and> prevStatus s = VICTORY);
          (s1, evs) =
            (if isMenuReset \<or> isRestart \<or> isVictoryReset then
               (s\<lparr>objectsRef := [], renderTrigger := renderTrigger s + 1,
                   distanceTraveled := 0, nextLetterDistance := getLetterInterval 1\<rparr>, [])
             else if isLevelUp \<and> lvl > 1 then
               (s\<lparr>objectsRef :=
                     filter (\<lambda>obj. vz (position obj) > -80) (objectsRef s) @ [shopPortal (nextId s)],
                   nextId := nextId s + 1,
                   nextLetterDistance :=
                     distanceTraveled s - SPAWN_DISTANCE c + getLetterInterval lvl,
                   renderTrigger := renderTrigger s + 1\<rparr>, [])
             else if st = GAME_OVER \<or> st = VICTORY then
               (s, [SetDistance \<lfloor>distanceTraveled s\<rfloor>])
             else (s, []))
      in (s1\<lparr>prevStatus := st, prevLevel := lvl\<rparr>, evs))"

subsection \<open>One entity of the frame loop\<close>

definition missile :: "nat \<Rightarrow> GameObject \<Rightarrow> GameObject" where
  "missile uid obj =
     \<lparr>obj_id = uid, obj_type = MISSILE,
      position = (vx (position obj), 1.0, vz (position obj) + 2), active = True,
      color = Some ''#ffffff'', hasFired = None, points = None, obj_value = None,
      targetIndex = None\<rparr>"

definition isDamageSource :: "GameObject \<Rightarrow> bool" where
  "isDamageSource obj =
     (obj_type obj = OBSTACLE \<or> obj_type obj = ALIEN \<or> obj_type obj = MISSILE)"

definition isHit :: "vec3 \<Rightarrow> GameObject \<Rightarrow> bool" where
  "isHit playerPos obj =
     (let playerBottom = vy playerPos;
          playerTop = vy playerPos + 1.5;
          objBottom = (if obj_type obj = OBSTACLE then 0 else vy (position obj) - 0.5);
          objTop = (if obj_type obj = OBSTACLE then 1.5 else vy (position obj) + 0.5)
      in playerBottom < objTop \<and> playerTop > objBottom)"

text \<open>
  \<^verbatim>\<open>obj.points || 50\<close> and \<^verbatim>\<open>obj.color || '#ffffff'\<close>: the
  default replaces a missing value and a falsy one (zero, the empty string).
\<close>

definition gemPoints :: "GameObject \<Rightarrow> int" where
  "gemPoints obj = (case points obj of None \<Rightarrow> 50 | Some p \<Rightarrow> if p = 0 then 50 else p)"

definition burstColor :: "GameObject \<Rightarrow> string" where
  "burstColor obj =
     (case color obj of None \<Rightarrow> ''#ffffff'' | Some col \<Rightarrow> if col = [] then ''#ffffff'' else col)"

definition letterEvents :: "nat option \<Rightarrow> event list" where
  "letterEvents ti = (case ti of None \<Rightarrow> [] | Some i \<Rightarrow> [CollectLetter i, PlayLetterCollect])"

definition collectEvents :: "GameObject \<Rightarrow> event list" where
  "collectEvents obj =
     (if obj_type obj = GEM then [CollectGem (gemPoints obj), PlayGemCollect] else []) @
     (if obj_type obj = LETTER then letterEvents (targetIndex obj) else []) @
     [ParticleBurst (position obj) (burstColor obj)]"

record collideRes =
  c_obj :: GameObject
  c_keep :: bool
  c_events :: "event list"
  c_changed :: bool

definition untouched :: "GameObject \<Rightarrow> collideRes" where
  "untouched obj = \<lparr>c_obj = obj, c_keep = True, c_events = [], c_changed = False\<rparr>"

text \<open>
  The collision block of the loop body (\<^verbatim>\<open>if (obj.active) { ... }\<close>), for an
  entity already moved; \<open>prevZ\<close> is its forward coordinate before the move.
\<close>

definition collide :: "vec3 \<Rightarrow> real \<Rightarrow> GameObject \<Rightarrow> collideRes" where
  "collide playerPos prevZ obj =
     (if active obj then
        (let zThreshold = 2.0;
             inZZone = (prevZ < vz playerPos + zThreshold \<and>
                        vz (position obj) > vz playerPos - zThreshold)
         in if obj_type obj = SHOP_PORTAL then
              (if \<bar>vz (position obj) - vz playerPos\<bar> < 2 then
                 \<lparr>c_obj = obj\<lparr>active := False\<rparr>, c_keep = False, c_events = [OpenShop],
                  c_changed = True\<rparr>
               else untouched obj)
            else if inZZone then
              (let dx = \<bar>vx (position obj) - vx playerPos\<bar>
               in if dx < 0.8 then
                    (if isDamageSource obj then
                       (if isHit playerPos obj then
                          \<lparr>c_obj = obj\<lparr>active := False\<rparr>, c_keep = True,
                           c_events = [PlayerHit, ParticleBurst (position obj) ''#ff9999''],
                           c_changed = True\<rparr>
                        else untouched obj)
                     else
                       (let dy = \<bar>vy (position obj) - vy playerPos\<bar>
                        in if dy < 2.5 then
                             \<lparr>c_obj = obj\<lparr>active := False\<rparr>, c_keep = True,
                              c_events = collectEvents obj, c_changed = True\<rparr>
                           else untouched obj))
                  else untouched obj)
            else untouched obj)
      else untouched obj)"

definition moveAmount :: "real \<Rightarrow> real \<Rightarrow> GameObject \<Rightarrow> real" where
  "moveAmount dst safeDelta obj =
     (if obj_type obj = MISSILE then dst + MISSILE_SPEED * safeDelta else dst)"

definition moved :: "real \<Rightarrow> real \<Rightarrow> GameObject \<Rightarrow> GameObject" where
  "moved dst safeDelta obj =
     obj\<lparr>position := (vx (position obj), vy (position obj),
                       vz (position obj) + moveAmount dst safeDelta obj)\<rparr>"

text \<open>The alien's guard of the shoot logic, on the entity after its move.\<close>

definition fires :: "GameObject \<Rightarrow> bool" where
  "fires obj =
     (obj_type obj = ALIEN \<and> active obj \<and> hasFired obj \<noteq> Some True \<and>
      vz (position obj) > -90)"

record stepRes =
  s_obj :: GameObject
  s_keep :: bool
  s_spawns :: "GameObject list"
  s_events :: "event list"
  s_changed :: bool

text \<open>
  The body of \<^verbatim>\<open>for (const obj of currentObjects)\<close>: move, alien shoot logic,
  collision, removal behind the camera.  \<open>uid\<close> is the id the next
  \<^verbatim>\<open>uuidv4()\<close> returns.
\<close>

definition stepObject ::
  "tunables \<Rightarrow> real \<Rightarrow> real \<Rightarrow> vec3 \<Rightarrow> nat \<Rightarrow> GameObject \<Rightarrow> stepRes" where
  "stepObject c dst safeDelta playerPos uid obj =
     (let prevZ = vz (position obj);
          obj1 = moved dst safeDelta obj;
          obj2 = (if fires obj1 then obj1\<lparr>hasFired := Some True\<rparr> else obj1);
          spawns = (if fires obj1 then [missile uid obj1] else []);
          cr = collide playerPos prevZ obj2;
          gone = (vz (position (c_obj cr)) > REMOVE_DISTANCE c)
      in \<lparr>s_obj = c_obj cr, s_keep = (c_keep cr \<and> \<not> gone), s_spawns = spawns,
          s_events = c_events cr, s_changed = (fires obj1 \<or> c_changed cr \<or> gone)\<rparr>)"

subsection \<open>The frame loop\<close>

record loopRes =
  l_all :: "GameObject list"
  l_kept :: "GameObject list"
  l_spawns :: "GameObject list"
  l_events :: "event list"
  l_changed :: bool
  l_uid :: nat

text \<open>
  The \<^verbatim>\<open>for\<close> loop over \<^verbatim>\<open>currentObjects\<close>.  The entities are
  mutated in place, so \<open>l_all\<close> is what the old array holds afterwards;
  \<open>l_kept\<close> is \<^verbatim>\<open>keptObjects\<close> and \<open>l_spawns\<close> is
  \<^verbatim>\<open>newSpawns\<close>.
\<close>

fun stepLoop ::
  "tunables \<Rightarrow> real \<Rightarrow> real \<Rightarrow> vec3 \<Rightarrow> nat \<Rightarrow> GameObject list \<Rightarrow> loopRes" where
  "stepLoop c dst safeDelta playerPos uid [] =
     \<lparr>l_all = [], l_kept = [], l_spawns = [], l_events = [], l_changed = False, l_uid = uid\<rparr>"
| "stepLoop c dst safeDelta playerPos uid (obj # objs) =
     (let r = stepObject c dst safeDelta playerPos uid obj;
          rest = stepLoop c dst safeDelta playerPos (uid + length (s_spawns r)) objs
      in \<lparr>l_all = s_obj r # l_all rest,
          l_kept = (if s_keep r then s_obj r # l_kept rest else l_kept rest),
          l_spawns = s_spawns r @ l_spawns rest,
          l_events = s_events r @ l_events rest,
          l_changed = (s_changed r \<or> l_changed rest),
          l_uid = l_uid rest\<rparr>)"

subsection \<open>Spawning\<close>

text \<open>
  \<^verbatim>\<open>furthestZ\<close>: the least forward coordinate among the entities that are not
  missiles, \<open>-20\<close> when there is none.
\<close>

definition furthestZ :: "GameObject list \<Rightarrow> real" where
  "furthestZ kept =
     (let staticObjects = filter (\<lambda>ob. obj_type ob \<noteq> MISSILE) kept
      in case map (\<lambda>ob. vz (position ob)) staticObjects of
           [] \<Rightarrow> -20
         | z # zs \<Rightarrow> fold min zs z)"

definition target :: "string list" where
  "target = [''G'', ''E'', ''M'', ''I'', ''N'', ''I'']"

definition availableIndices :: "nat list \<Rightarrow> nat list" where
  "availableIndices collected = filter (\<lambda>i. i \<notin> set collected) [0..<length target]"

text \<open>Indexing a JavaScript array: \<open>None\<close> is \<^verbatim>\<open>undefined\<close>.\<close>

definition at_index :: "'a list \<Rightarrow> int \<Rightarrow> 'a option" where
  "at_index xs i = (if 0 \<le> i \<and> i < int (length xs) then Some (xs ! nat i) else None)"

definition letterObj :: "tunables \<Rightarrow> nat \<Rightarrow> int \<Rightarrow> real \<Rightarrow> nat option \<Rightarrow> GameObject" where
  "letterObj c uid lane_no spawnZ chosenIndex =
     \<lparr>obj_id = uid, obj_type = LETTER, position = (of_int lane_no * LANE_WIDTH c, 1.0, spawnZ),
      active = True,
      color = (case chosenIndex of None \<Rightarrow> None | Some i \<Rightarrow> at_index (GEMINI_COLORS c) (int i)),
      hasFired = None, points = None,
      obj_value = (case chosenIndex of None \<Rightarrow> None | Some i \<Rightarrow> at_index target (int i)),
      targetIndex = chosenIndex\<rparr>"

definition gemObj :: "tunables \<Rightarrow> nat \<Rightarrow> int \<Rightarrow> real \<Rightarrow> real \<Rightarrow> int \<Rightarrow> GameObject" where
  "gemObj c uid lane_no h spawnZ pts =
     \<lparr>obj_id = uid, obj_type = GEM, position = (of_int lane_no * LANE_WIDTH c, h, spawnZ),
      active = True, color = Some ''#FFD700'', hasFired = None, points = Some pts,
      obj_value = None, targetIndex = None\<rparr>"

definition alienObj :: "tunables \<Rightarrow> nat \<Rightarrow> int \<Rightarrow> real \<Rightarrow> GameObject" where
  "alienObj c uid lane_no spawnZ =
     \<lparr>obj_id = uid, obj_type = ALIEN, position = (of_int lane_no * LANE_WIDTH c, 1.5, spawnZ),
      active = True, color = Some ''#00BFFF'', hasFired = Some False, points = None,
      obj_value = None, targetIndex = None\<rparr>"

definition obstacleObj :: "tunables \<Rightarrow> nat \<Rightarrow> int \<Rightarrow> real \<Rightarrow> GameObject" where
  "obstacleObj c uid lane_no spawnZ =
     \<lparr>obj_id = uid, obj_type = OBSTACLE, position = (of_int lane_no * LANE_WIDTH c, 0, spawnZ),
      active = True, color = Some ''#ffffff'', hasFired = None, points = None,
      obj_value = None, targetIndex = None\<rparr>"

record spawnRes =
  sp_new :: "GameObject list"
  sp_nextLetter :: real
  sp_changed :: bool
  sp_uid :: nat

text \<open>
  The block under \<^verbatim>\<open>// Spawning Logic\<close>.  \<open>dT\<close> and \<open>nLD\<close> are
  \<^verbatim>\<open>distanceTraveled.current\<close> (already advanced by this frame) and
  \<^verbatim>\<open>nextLetterDistance.current\<close>; \<open>r k\<close> is the outcome of the frame's
  call number \<open>k\<close> of \<^verbatim>\<open>Math.random()\<close>.  \<open>sp_new\<close> lists the
  entities pushed onto \<^verbatim>\<open>keptObjects\<close>, in order.
\<close>

definition spawnPolicy ::
  "tunables \<Rightarrow> store \<Rightarrow> real \<Rightarrow> real \<Rightarrow> (nat \<Rightarrow> real) \<Rightarrow> nat \<Rightarrow> GameObject list \<Rightarrow> spawnRes" where
  "spawnPolicy c s dT nLD r uid kept =
     (let fz = furthestZ kept
      in if fz > - SPAWN_DISTANCE c then
           (let minGap = 12 + speed s * 0.4;
                spawnZ = min (fz - minGap) (- SPAWN_DISTANCE c);
                isLetterDue = (dT \<ge> nLD)
            in if isLetterDue then
                 (let lane_no = getRandomLane (r 0) (laneCount s);
                      avail = availableIndices (collectedLetters s)
                  in if length avail > 0 then
                       (let chosenIndex = at_index avail \<lfloor>r 1 * of_nat (length avail)\<rfloor>
                        in \<lparr>sp_new = [letterObj c uid lane_no spawnZ chosenIndex],
                            sp_nextLetter = nLD + getLetterInterval (level s),
                            sp_changed = True, sp_uid = uid + 1\<rparr>)
                     else
                       \<lparr>sp_new = [gemObj c uid lane_no 1.2 spawnZ 50], sp_nextLetter = nLD,
                        sp_changed = True, sp_uid = uid + 1\<rparr>)
               else if r 0 > 0.1 then
                 (let isObstacle = (r 1 > 0.25)
                  in if isObstacle then
                       (let spawnAlien = (level s \<ge> 2 \<and> r 2 < 0.2);
                            k = (if level s \<ge> 2 then 3 else 2)
                        in if spawnAlien then
                             \<lparr>sp_new = [alienObj c uid (getRandomLane (r k) (laneCount s)) spawnZ],
                              sp_nextLetter = nLD, sp_changed = True, sp_uid = uid + 1\<rparr>
                           else
                             (let lane_no = getRandomLane (r k) (laneCount s)
                              in if r (k + 1) < 0.3 then
                                   \<lparr>sp_new = [obstacleObj c uid lane_no spawnZ,
                                              gemObj c (uid + 1) lane_no 2.5 spawnZ 100],
                                    sp_nextLetter = nLD, sp_changed = True, sp_uid = uid + 2\<rparr>
                                 else
                                   \<lparr>sp_new = [obstacleObj c uid lane_no spawnZ],
                                    sp_nextLetter = nLD, sp_changed = True, sp_uid = uid + 1\<rparr>))
                     else
                       \<lparr>sp_new = [gemObj c uid (getRandomLane (r 2) (laneCount s)) 1.2 spawnZ 50],
                        sp_nextLetter = nLD, sp_changed = True, sp_uid = uid + 1\<rparr>)
               else \<lparr>sp_new = [], sp_nextLetter = nLD, sp_changed = False, sp_uid = uid\<rparr>)
         else \<lparr>sp_new = [], sp_nextLetter = nLD, sp_changed = False, sp_uid = uid\<rparr>)"

subsection \<open>The two frame callbacks\<close>

text \<open>The first \<^verbatim>\<open>useFrame\<close>: attach the player object once the scene has it.\<close>

definition attachPlayer :: "frameIn \<Rightarrow> LMState \<Rightarrow> LMState" where
  "attachPlayer fi st =
     (if \<not> playerObjRef st then
        (if scenePlayer fi then st\<lparr>playerObjRef := True\<rparr> else st)
      else st)"

text \<open>
  The second \<^verbatim>\<open>useFrame\<close>: step, collide, spawn, commit.  The player position
  starts as the zero vector and is overwritten only when the player object is attached.
\<close>

definition playerPosOf :: "frameIn \<Rightarrow> LMState \<Rightarrow> vec3" where
  "playerPosOf fi st = (if playerObjRef st then playerWorld fi else (0, 0, 0))"

definition levelFrame :: "tunables \<Rightarrow> store \<Rightarrow> frameIn \<Rightarrow> LMState \<Rightarrow> LMState \<times> event list" where
  "levelFrame c s fi st =
     (if status s \<noteq> PLAYING then (st, [])
      else
        (let safeDelta = min (delta fi) 0.05;
             dst = speed s * safeDelta;
             dT = distanceTraveled st + dst;
             playerPos = playerPosOf fi st;
             lp = stepLoop c dst safeDelta playerPos (nextId st) (objectsRef st);
             keptObjects = l_kept lp @ l_spawns lp;
             sp = spawnPolicy c s dT (nextLetterDistance st) (rnd fi) (l_uid lp) keptObjects;
             hasChanges = (l_changed lp \<or> sp_changed sp)
         in (st\<lparr>objectsRef := (if hasChanges then keptObjects @ sp_new sp else l_all lp),
                renderTrigger := (if hasChanges then renderTrigger st + 1 else renderTrigger st),
                distanceTraveled := dT,
                nextLetterDistance := sp_nextLetter sp,
                nextId := sp_uid sp\<rparr>,
             l_events lp)))"

definition frame :: "tunables \<Rightarrow> store \<Rightarrow> frameIn \<Rightarrow> LMState \<Rightarrow> LMState \<times> event list" where
  "frame c s fi st = levelFrame c s fi (attachPlayer fi st)"

section \<open>Player\<close>

datatype playerCall = PlayJump bool | PlayDamage | TakeDamage | ActivateImmortality

text \<open>
  The state and refs of the \<^verbatim>\<open>Player\<close> component.  \<open>groupY\<close> is
  \<^verbatim>\<open>groupRef.current.position.y\<close> and \<open>bodyRotX\<close> is
  \<^verbatim>\<open>bodyMeshRef.current.rotation.x\<close>, \<open>None\<close> while the ref is null.
\<close>

record Player =
  lane :: int
  isJumping :: bool
  velocityY :: real
  jumpsPerformed :: int
  spinRotation :: real
  isInvincible :: bool
  lastDamageTime :: int
  groupY :: "real option"
  bodyRotX :: "real option"

definition JUMP_FORCE :: real where
  "JUMP_FORCE = 16"

text \<open>The effect under \<^verbatim>\<open>Reset State on Game Start\<close>, run when the status changes.\<close>

definition resetOnStatus :: "GameStatus \<Rightarrow> Player \<Rightarrow> Player" where
  "resetOnStatus st p =
     (if st = PLAYING then
        p\<lparr>isJumping := False, jumpsPerformed := 0, velocityY := 0, spinRotation := 0,
          groupY := (case groupY p of None \<Rightarrow> None | Some y \<Rightarrow> Some 0),
          bodyRotX := (case bodyRotX p of None \<Rightarrow> None | Some a \<Rightarrow> Some 0)\<rparr>
      else p)"

text \<open>The effect on \<^verbatim>\<open>[laneCount, lane]\<close>.\<close>

definition clampLane :: "int \<Rightarrow> Player \<Rightarrow> Player" where
  "clampLane lc p =
     (let maxLane = lc div 2
      in if \<bar>lane p\<bar> > maxLane then p\<lparr>lane := max (min (lane p) maxLane) (- maxLane)\<rparr>
         else p)"

definition triggerJump :: "bool \<Rightarrow> Player \<Rightarrow> Player \<times> playerCall list" where
  "triggerJump hasDoubleJump p =
     (let maxJumps = (if hasDoubleJump then 2 else 1)
      in if \<not> isJumping p then
           (p\<lparr>isJumping := True, jumpsPerformed := 1, velocityY := JUMP_FORCE\<rparr>, [PlayJump False])
         else if jumpsPerformed p < maxJumps then
           (p\<lparr>jumpsPerformed := jumpsPerformed p + 1, velocityY := JUMP_FORCE,
              spinRotation := 0\<rparr>, [PlayJump True])
         else (p, []))"

datatype key = ArrowLeft | ArrowRight | ArrowUp | KeyW | Space | Enter | OtherKey

definition handleKeyDown ::
  "GameStatus \<Rightarrow> int \<Rightarrow> bool \<Rightarrow> key \<Rightarrow> Player \<Rightarrow> Player \<times> playerCall list" where
  "handleKeyDown st lc hasDoubleJump k p =
     (if st \<noteq> PLAYING then (p, [])
      else
        (let maxLane = lc div 2
         in if k = ArrowLeft then (p\<lparr>lane := max (lane p - 1) (- maxLane)\<rparr>, [])
            else if k = ArrowRight then (p\<lparr>lane := min (lane p + 1) maxLane\<rparr>, [])
            else if k = ArrowUp \<or> k = KeyW then triggerJump hasDoubleJump p
            else if k = Space \<or> k = Enter then (p, [ActivateImmortality])
            else (p, [])))"

text \<open>
  \<^verbatim>\<open>handleTouchEnd\<close>, on the horizontal and vertical travel of the touch.
\<close>

definition handleTouchEnd ::
  "GameStatus \<Rightarrow> int \<Rightarrow> bool \<Rightarrow> real \<Rightarrow> real \<Rightarrow> Player \<Rightarrow> Player \<times> playerCall list" where
  "handleTouchEnd st lc hasDoubleJump deltaX deltaY p =
     (if st \<noteq> PLAYING then (p, [])
      else
        (let maxLane = lc div 2
         in if \<bar>deltaX\<bar> > \<bar>deltaY\<bar> \<and> \<bar>deltaX\<bar> > 30 then
              (if deltaX > 0 then (p\<lparr>lane := min (lane p + 1) maxLane\<rparr>, [])
               else (p\<lparr>lane := max (lane p - 1) (- maxLane)\<rparr>, []))
            else if \<bar>deltaY\<bar> > \<bar>deltaX\<bar> \<and> deltaY < -30 then triggerJump hasDoubleJump p
            else if \<bar>deltaX\<bar> < 10 \<and> \<bar>deltaY\<bar> < 10 then (p, [ActivateImmortality])
            else (p, [])))"

datatype input = Key key | Touch real real

text \<open>One input: its handler, then the lane effect of the render that follows.\<close>

definition applyInput :: "GameStatus \<Rightarrow> int \<Rightarrow> bool \<Rightarrow> Player \<Rightarrow> input \<Rightarrow> Player" where
  "applyInput st lc hasDoubleJump p i =
     clampLane lc
       (fst (case i of
               Key k \<Rightarrow> handleKeyDown st lc hasDoubleJump k p
             | Touch deltaX deltaY \<Rightarrow> handleTouchEnd st lc hasDoubleJump deltaX deltaY p))"

definition applyInputs :: "GameStatus \<Rightarrow> int \<Rightarrow> bool \<Rightarrow> Player \<Rightarrow> input list \<Rightarrow> Player" where
  "applyInputs st lc hasDoubleJump p inputs = foldl (applyInput st lc hasDoubleJump) p inputs"

text \<open>
  \<^verbatim>\<open>checkHit\<close>, the listener of \<^verbatim>\<open>player-hit\<close>; \<open>now\<close> is
  \<^verbatim>\<open>Date.now()\<close>.
\<close>

definition checkHit :: "bool \<Rightarrow> int \<Rightarrow> Player \<Rightarrow> Player \<times> playerCall list" where
  "checkHit isImmortalityActive now p =
     (if isInvincible p \<or> isImmortalityActive then (p, [])
      else (p\<lparr>isInvincible := True, lastDamageTime := now\<rparr>, [PlayDamage, TakeDamage]))"

text \<open>
  \<^verbatim>\<open>window.dispatchEvent\<close> runs the listener before it returns, so the events
  of a frame reach \<^verbatim>\<open>checkHit\<close> in the order they are issued.
\<close>

fun dispatch :: "bool \<Rightarrow> int \<Rightarrow> event list \<Rightarrow> Player \<Rightarrow> Player \<times> playerCall list" where
  "dispatch imm now [] p = (p, [])"
| "dispatch imm now (e # es) p =
     (if e = PlayerHit then
        (let (p1, calls1) = checkHit imm now p;
             (p2, calls2) = dispatch imm now es p1
         in (p2, calls1 @ calls2))
      else dispatch imm now es p)"

section \<open>Executions and portals\<close>







section \<open>Example inputs\<close>

text \<open>
  Concrete values for the examples below: the constants of \<^verbatim>\<open>types\<close> with a
  spawn distance of 60, a Playing render at level 2 with five lanes and speed 40, a frame
  of 50 ms whose random source always returns 0.05 (so that 2 units are travelled and the
  spawn policy leaves a gap when no letter is due), the refs of the level manager during
  a run and at mount, and a grounded player in lane 0.
\<close>

definition tun0 :: tunables where
  "tun0 = \<lparr>LANE_WIDTH = 2, SPAWN_DISTANCE = 60, REMOVE_DISTANCE = 20,
           GEMINI_COLORS = [''#2979ff'', ''#ff1744'', ''#ffff00'', ''#2979ff'', ''#00e676'',
                            ''#ff1744'']\<rparr>"

definition store0 :: store where
  "store0 = \<lparr>status = PLAYING, speed = 40, collectedLetters = [], laneCount = 5, level = 2\<rparr>"

definition frame0 :: frameIn where
  "frame0 = \<lparr>delta = 0.05, rnd = (\<lambda>k. 0.05), scenePlayer = True, playerWorld = (0, 0, 0)\<rparr>"

definition lm0 :: LMState where
  "lm0 = \<lparr>objectsRef = [], renderTrigger = 0, prevStatus = PLAYING, prevLevel = 2,
          playerObjRef = True, distanceTraveled = 0, nextLetterDistance = 150, nextId = 10\<rparr>"


definition player0 :: Player where
  "player0 = \<lparr>lane = 0, isJumping = False, velocityY = 0, jumpsPerformed = 0, spinRotation = 0,
              isInvincible = False, lastDamageTime = 0, groupY = Some 0, bodyRotX = Some 0\<rparr>"

section \<open>Facts about one entity step\<close>

lemma moved_simps:
  "obj_type (moved d sd obj) = obj_type obj"
  "active (moved d sd obj) = active obj"
  "hasFired (moved d sd obj) = hasFired obj"
  "vx (position (moved d sd obj)) = vx (position obj)"
  "vy (position (moved d sd obj)) = vy (position obj)"
  "vz (position (moved d sd obj)) = vz (position obj) + moveAmount d sd obj"
  by (simp_all add: moved_def vx_def vy_def vz_def)

lemma collide_fields:
  "obj_type (c_obj (collide pp z obj)) = obj_type obj"
  "position (c_obj (collide pp z obj)) = position obj"
  "hasFired (c_obj (collide pp z obj)) = hasFired obj"
  by (simp_all add: collide_def untouched_def Let_def)

lemma s_spawns_stepObject:
  "s_spawns (stepObject c d sd pp uid obj) =
     (if fires (moved d sd obj) then [missile uid (moved d sd obj)] else [])"
  by (simp add: stepObject_def Let_def)

lemma s_obj_stepObject:
  "s_obj (stepObject c d sd pp uid obj) =
   c_obj (collide pp (vz (position obj))
     (if fires (moved d sd obj) then (moved d sd obj)\<lparr>hasFired := Some True\<rparr>
      else moved d sd obj))"
  by (simp add: stepObject_def Let_def)

lemma s_events_stepObject:
  "s_events (stepObject c d sd pp uid obj) =
   c_events (collide pp (vz (position obj))
     (if fires (moved d sd obj) then (moved d sd obj)\<lparr>hasFired := Some True\<rparr>
      else moved d sd obj))"
  by (simp add: stepObject_def Let_def)

lemma s_events_uid:
  "s_events (stepObject c d sd pp uid obj) = s_events (stepObject c d sd pp 0 obj)"
  by (simp add: s_events_stepObject)

lemma s_changed_fires: "fires (moved d sd obj) \<Longrightarrow> s_changed (stepObject c d sd pp uid obj)"
  by (simp add: stepObject_def Let_def)

lemma hasFired_stepObject:
  "hasFired (s_obj (stepObject c d sd pp uid obj)) =
     (if fires (moved d sd obj) then Some True else hasFired obj)"
  by (simp add: s_obj_stepObject collide_fields moved_simps)

lemma fires_moved:
  "fires (moved d sd obj) =
     (obj_type obj = ALIEN \<and> active obj \<and> hasFired obj \<noteq> Some True \<and>
      vz (position obj) + d > -90)"
  by (auto simp add: fires_def moved_simps moveAmount_def)

lemma isHit_cong:
  "obj_type a = obj_type b \<Longrightarrow> vy (position a) = vy (position b) \<Longrightarrow> isHit pp a = isHit pp b"
  by (simp add: isHit_def)

section \<open>Facts about the frame loop and the frame\<close>

lemma stepLoop_events:
  "l_events (stepLoop c d sd pp uid objs) =
     concat (map (\<lambda>ob. s_events (stepObject c d sd pp 0 ob)) objs)"
proof (induction objs arbitrary: uid)
  case Nil
  show ?case by simp
next
  case (Cons a objs)
  show ?case
    by (simp add: Let_def Cons.IH s_events_uid [of c d sd pp uid a])
qed

lemma stepLoop_spawns:
  "a \<in> set objs \<Longrightarrow> fires (moved d sd a) \<Longrightarrow>
   \<exists>k. missile k (moved d sd a) \<in> set (l_spawns (stepLoop c d sd pp uid objs))"
proof (induction objs arbitrary: uid)
  case Nil
  then show ?case by simp
next
  case (Cons b objs)
  show ?case
  proof (cases "a = b")
    case True
    have "missile uid (moved d sd a) \<in> set (l_spawns (stepLoop c d sd pp uid (b # objs)))"
      using Cons.prems(2) True by (simp add: Let_def s_spawns_stepObject)
    then show ?thesis ..
  next
    case False
    then have "a \<in> set objs" using Cons.prems(1) by simp
    from Cons.IH [OF this Cons.prems(2)]
    obtain k where "missile k (moved d sd a) \<in>
        set (l_spawns (stepLoop c d sd pp (uid + length (s_spawns (stepObject c d sd pp uid b))) objs))"
      by blast
    then have "missile k (moved d sd a) \<in> set (l_spawns (stepLoop c d sd pp uid (b # objs)))"
      by (simp add: Let_def)
    then show ?thesis ..
  qed
qed

lemma stepLoop_changed:
  "a \<in> set objs \<Longrightarrow> fires (moved d sd a) \<Longrightarrow> l_changed (stepLoop c d sd pp uid objs)"
proof (induction objs arbitrary: uid)
  case Nil
  then show ?case by simp
next
  case (Cons b objs)
  show ?case
  proof (cases "a = b")
    case True
    then show ?thesis using Cons.prems(2) by (simp add: Let_def s_changed_fires)
  next
    case False
    then have "a \<in> set objs" using Cons.prems(1) by simp
    from Cons.IH [OF this Cons.prems(2)] show ?thesis by (simp add: Let_def)
  qed
qed

lemma attachPlayer_fields:
  "objectsRef (attachPlayer fi st) = objectsRef st"
  "distanceTraveled (attachPlayer fi st) = distanceTraveled st"
  "nextLetterDistance (attachPlayer fi st) = nextLetterDistance st"
  "nextId (attachPlayer fi st) = nextId st"
  "renderTrigger (attachPlayer fi st) = renderTrigger st"
  by (simp_all add: attachPlayer_def)

lemma frame_unfold:
  "frame c s fi st =
     (if status s \<noteq> PLAYING then (attachPlayer fi st, [])
      else
        (let lp = stepLoop c (speed s * min (delta fi) 0.05) (min (delta fi) 0.05)
                    (playerPosOf fi (attachPlayer fi st)) (nextId st) (objectsRef st);
             sp = spawnPolicy c s (distanceTraveled st + speed s * min (delta fi) 0.05)
                    (nextLetterDistance st) (rnd fi) (l_uid lp) (l_kept lp @ l_spawns lp)
         in ((attachPlayer fi st)\<lparr>objectsRef :=
                  (if l_changed lp \<or> sp_changed sp then l_kept lp @ l_spawns lp @ sp_new sp
                   else l_all lp),
                renderTrigger :=
                  (if l_changed lp \<or> sp_changed sp then renderTrigger st + 1 else renderTrigger st),
                distanceTraveled := distanceTraveled st + speed s * min (delta fi) 0.05,
                nextLetterDistance := sp_nextLetter sp,
                nextId := sp_uid sp\<rparr>,
             l_events lp)))"
  by (simp add: frame_def levelFrame_def Let_def attachPlayer_fields)

lemma frame_events:
  "status s = PLAYING \<Longrightarrow>
   snd (frame c s fi st) =
     l_events (stepLoop c (speed s * min (delta fi) 0.05) (min (delta fi) 0.05)
        (playerPosOf fi (attachPlayer fi st)) (nextId st) (objectsRef st))"
  by (simp add: frame_unfold Let_def)

lemma frame_objects_changed:
  assumes "status s = PLAYING"
    and "l_changed (stepLoop c (speed s * min (delta fi) 0.05) (min (delta fi) 0.05)
        (playerPosOf fi (attachPlayer fi st)) (nextId st) (objectsRef st))"
  shows "set (l_spawns (stepLoop c (speed s * min (delta fi) 0.05) (min (delta fi) 0.05)
        (playerPosOf fi (attachPlayer fi st)) (nextId st) (objectsRef st)))
     \<subseteq> set (objectsRef (fst (frame c s fi st)))"
  using assms by (auto simp add: frame_unfold Let_def)

section \<open>The player pose when the player object is not attached\<close>

lemma playerPosOf_unattached:
  "\<not> playerObjRef st \<Longrightarrow> \<not> scenePlayer fi \<Longrightarrow> playerPosOf fi (attachPlayer fi st) = (0, 0, 0)"
  by (simp add: playerPosOf_def attachPlayer_def)

lemma playerPosOf_attached:
  "playerPosOf (fi\<lparr>playerWorld := w\<rparr>)
     (attachPlayer (fi\<lparr>playerWorld := w\<rparr>) (st\<lparr>playerObjRef := True\<rparr>)) = w"
  by (simp add: playerPosOf_def attachPlayer_def)

text \<open>
  C1, as stated, fails.  With no player object attached and none in the scene, a Playing
  frame still runs the collision tests, against the zero vector: a gem in the centre
  lane that passes the origin is collected.
\<close>

theorem unattached_collects_counterexample:
  "\<not> playerObjRef (attachPlayer (frame0\<lparr>scenePlayer := False\<rparr>)
        (lm0\<lparr>playerObjRef := False, objectsRef := [gemObj tun0 3 0 1.2 (-1) 50]\<rparr>)) \<and>
   snd (frame tun0 store0 (frame0\<lparr>scenePlayer := False\<rparr>)
        (lm0\<lparr>playerObjRef := False, objectsRef := [gemObj tun0 3 0 1.2 (-1) 50]\<rparr>)) =
     [CollectGem 50, PlayGemCollect, ParticleBurst (0, 1.2, 1) ''#FFD700'']"
  by code_simp

text \<open>
  C1, amended.  In a frame in which the player object is not attached (and the scene does
  not offer one), the level manager does not skip the collision tests: it tests every
  entity against the default pose \<open>(0, 0, 0)\<close>.  The frame emits exactly the events,
  and commits exactly the entity set, of the same frame with a player attached at the
  origin.
\<close>

theorem unattached_player_is_at_origin:
  assumes "\<not> playerObjRef st" and "\<not> scenePlayer fi"
  shows "snd (frame c s fi st) =
           snd (frame c s (fi\<lparr>playerWorld := (0, 0, 0)\<rparr>) (st\<lparr>playerObjRef := True\<rparr>)) \<and>
         objectsRef (fst (frame c s fi st)) =
           objectsRef (fst (frame c s (fi\<lparr>playerWorld := (0, 0, 0)\<rparr>)
                              (st\<lparr>playerObjRef := True\<rparr>)))"
proof -
  have a: "playerPosOf fi (attachPlayer fi st) = (0, 0, 0)"
    using assms by (rule playerPosOf_unattached)
  have b: "playerPosOf (fi\<lparr>playerWorld := (0, 0, 0)\<rparr>)
       (attachPlayer (fi\<lparr>playerWorld := (0, 0, 0)\<rparr>) (st\<lparr>playerObjRef := True\<rparr>)) = (0, 0, 0)"
    by (rule playerPosOf_attached)
  show ?thesis
    unfolding frame_unfold a b by (simp add: Let_def attachPlayer_fields)
qed

text \<open>
  The amended C1 at a concrete frame: the player object is unattached and would report
  the position \<open>(2, 0, 0)\<close>; the gem of the counterexample is tested against the origin.
\<close>

theorem unattached_player_is_at_origin_witness:
  "snd (frame tun0 store0 (frame0\<lparr>scenePlayer := False, playerWorld := (2, 0, 0)\<rparr>)
        (lm0\<lparr>playerObjRef := False, objectsRef := [gemObj tun0 3 0 1.2 (-1) 50]\<rparr>)) =
   snd (frame tun0 store0
        (frame0\<lparr>scenePlayer := False, playerWorld := (2, 0, 0)\<rparr>\<lparr>playerWorld := (0, 0, 0)\<rparr>)
        (lm0\<lparr>playerObjRef := False, objectsRef := [gemObj tun0 3 0 1.2 (-1) 50]\<rparr>
            \<lparr>playerObjRef := True\<rparr>)) \<and>
   objectsRef (fst (frame tun0 store0 (frame0\<lparr>scenePlayer := False, playerWorld := (2, 0, 0)\<rparr>)
        (lm0\<lparr>playerObjRef := False, objectsRef := [gemObj tun0 3 0 1.2 (-1) 50]\<rparr>))) =
   objectsRef (fst (frame tun0 store0
        (frame0\<lparr>scenePlayer := False, playerWorld := (2, 0, 0)\<rparr>\<lparr>playerWorld := (0, 0, 0)\<rparr>)
        (lm0\<lparr>playerObjRef := False, objectsRef := [gemObj tun0 3 0 1.2 (-1) 50]\<rparr>
            \<lparr>playerObjRef := True\<rparr>)))"
proof -
  have h1: "\<not> playerObjRef (lm0\<lparr>playerObjRef := False,
      objectsRef := [gemObj tun0 3 0 1.2 (-1) 50]\<rparr>)"
    by simp
  have h2: "\<not> scenePlayer (frame0\<lparr>scenePlayer := False, playerWorld := (2, 0, 0)\<rparr>)"
    by simp
  show ?thesis
    by (rule unattached_player_is_at_origin [OF h1 h2])
qed

section \<open>The alien's missile\<close>

text \<open>
  C2, as stated, fails.  An alien at \<open>z = -91\<close> crosses the fire threshold; its missile
  appears at \<open>(0, 1, -87)\<close>, where the collision block of the loop would report a hit
  on a player standing at \<open>(0, 0, -87)\<close>.  The frame emits no event at all and commits
  the missile still active: the new missile is not collision-tested in the frame that
  creates it.
\<close>

theorem missile_untested_counterexample:
  "snd (frame tun0 store0 (frame0\<lparr>playerWorld := (0, 0, -87)\<rparr>)
        (lm0\<lparr>objectsRef := [alienObj tun0 7 0 (-91)]\<rparr>)) = [] \<and>
   map (\<lambda>ob. (obj_type ob, active ob, position ob))
     (objectsRef (fst (frame tun0 store0 (frame0\<lparr>playerWorld := (0, 0, -87)\<rparr>)
        (lm0\<lparr>objectsRef := [alienObj tun0 7 0 (-91)]\<rparr>)))) =
     [(ALIEN, True, (0, 1.5, -89)), (MISSILE, True, (0, 1, -87))] \<and>
   c_events (collide (0, 0, -87) (-87)
     (objectsRef (fst (frame tun0 store0 (frame0\<lparr>playerWorld := (0, 0, -87)\<rparr>)
        (lm0\<lparr>objectsRef := [alienObj tun0 7 0 (-91)]\<rparr>))) ! 1)) =
     [PlayerHit, ParticleBurst (0, 1, -87) ''#ff9999'']"
  by code_simp

text \<open>
  C2, amended.  In a Playing frame in which an active alien that has not fired crosses
  the fire threshold, its missile is in the entity set the frame commits, active, two
  units in front of the alien at height 1; the events of the frame are those of the
  entities present when the frame began, so the missile is collision-tested from the
  following frame on.
\<close>

theorem missile_joins_committed_set:
  assumes "status s = PLAYING" and "a \<in> set (objectsRef st)"
    and "obj_type a = ALIEN" and "active a" and "hasFired a \<noteq> Some True"
    and "vz (position a) + speed s * min (delta fi) 0.05 > -90"
  shows "(\<exists>m \<in> set (objectsRef (fst (frame c s fi st))).
            obj_type m = MISSILE \<and> active m \<and>
            position m = (vx (position a), 1, vz (position a) + speed s * min (delta fi) 0.05 + 2)) \<and>
         snd (frame c s fi st) =
           concat (map (\<lambda>ob. s_events (stepObject c (speed s * min (delta fi) 0.05)
                      (min (delta fi) 0.05) (playerPosOf fi (attachPlayer fi st)) 0 ob))
                    (objectsRef st))"
proof -
  let ?d = "speed s * min (delta fi) 0.05"
  let ?sd = "min (delta fi) 0.05"
  let ?pp = "playerPosOf fi (attachPlayer fi st)"
  let ?lp = "stepLoop c ?d ?sd ?pp (nextId st) (objectsRef st)"
  have f: "fires (moved ?d ?sd a)"
    using assms(3-6) by (simp add: fires_moved)
  obtain k where k: "missile k (moved ?d ?sd a) \<in> set (l_spawns ?lp)"
    using stepLoop_spawns [OF assms(2) f] by blast
  have "l_changed ?lp"
    using assms(2) f by (rule stepLoop_changed)
  with assms(1) have "set (l_spawns ?lp) \<subseteq> set (objectsRef (fst (frame c s fi st)))"
    by (rule frame_objects_changed)
  then have m: "missile k (moved ?d ?sd a) \<in> set (objectsRef (fst (frame c s fi st)))"
    using k by blast
  have p: "obj_type (missile k (moved ?d ?sd a)) = MISSILE \<and>
      active (missile k (moved ?d ?sd a)) \<and>
      position (missile k (moved ?d ?sd a)) = (vx (position a), 1, vz (position a) + ?d + 2)"
    using assms(3) by (simp add: missile_def moved_simps moveAmount_def)
  have e: "snd (frame c s fi st) =
      concat (map (\<lambda>ob. s_events (stepObject c ?d ?sd ?pp 0 ob)) (objectsRef st))"
    using assms(1) by (simp add: frame_events stepLoop_events)
  from m p e show ?thesis by blast
qed

text \<open>
  The amended C2 at a concrete frame: the alien of the counterexample, with the player at
  the origin.
\<close>

theorem missile_joins_committed_set_witness:
  "(\<exists>m \<in> set (objectsRef (fst (frame tun0 store0 frame0
                  (lm0\<lparr>objectsRef := [alienObj tun0 7 0 (-91)]\<rparr>)))).
      obj_type m = MISSILE \<and> active m \<and> position m = (0, 1, -87)) \<and>
   snd (frame tun0 store0 frame0 (lm0\<lparr>objectsRef := [alienObj tun0 7 0 (-91)]\<rparr>)) = []"
proof -
  let ?a = "alienObj tun0 7 0 (-91)"
  let ?st = "lm0\<lparr>objectsRef := [?a]\<rparr>"
  have h1: "status store0 = PLAYING" by (simp add: store0_def)
  have h2: "?a \<in> set (objectsRef ?st)" by simp
  have h3: "obj_type ?a = ALIEN" and h4: "active ?a" and h5: "hasFired ?a \<noteq> Some True"
    by (simp_all add: alienObj_def)
  have h6: "vz (position ?a) + speed store0 * min (delta frame0) 0.05 > -90"
    by (simp add: alienObj_def vz_def store0_def frame0_def)
  have pos: "(vx (position ?a), 1, vz (position ?a) + speed store0 * min (delta frame0) 0.05 + 2)
      = (0, 1, -87)"
    by (simp add: alienObj_def vx_def vz_def store0_def frame0_def)
  have ev: "concat (map (\<lambda>ob. s_events (stepObject tun0 (speed store0 * min (delta frame0) 0.05)
                      (min (delta frame0) 0.05) (playerPosOf frame0 (attachPlayer frame0 ?st)) 0 ob))
                    (objectsRef ?st)) = []"
    by code_simp
  show ?thesis
    using missile_joins_committed_set [OF h1 h2 h3 h4 h5 h6, of tun0] unfolding pos ev .
qed

text \<open>
  C4, as stated, fails.  The spawn policy creates aliens at height 1.5; the missile of
  such an alien is created at height 1, not at the alien's height.
\<close>

theorem missile_height_counterexample:
  "fires (moved 2 0.05 (alienObj tun0 7 0 (-91))) \<and>
   vy (position (alienObj tun0 7 0 (-91))) = 1.5 \<and>
   map (\<lambda>m. vy (position m))
     (s_spawns (stepObject tun0 2 0.05 (0, 0, 0) 10 (alienObj tun0 7 0 (-91)))) = [1]"
  by code_simp

text \<open>
  C4, amended.  When an active alien that has not fired is moved beyond \<open>z = -90\<close>, the
  step spawns exactly one missile, at the alien's lane offset \<open>x\<close>, at the fixed height
  1 and two units in front of the alien's new forward coordinate, and sets the alien's
  \<open>hasFired\<close>.  An entity whose \<open>hasFired\<close> is set spawns nothing in any later step
  and keeps the flag, so the alien never fires again.
\<close>

theorem alien_fires_missile:
  assumes "obj_type obj = ALIEN" and "active obj" and "hasFired obj \<noteq> Some True"
    and "vz (position obj) + d > -90"
  shows "map obj_type (s_spawns (stepObject c d sd pp uid obj)) = [MISSILE] \<and>
         map position (s_spawns (stepObject c d sd pp uid obj)) =
           [(vx (position obj), 1, vz (position obj) + d + 2)] \<and>
         hasFired (s_obj (stepObject c d sd pp uid obj)) = Some True \<and>
         s_spawns (stepObject c' d' sd' pp' uid' (s_obj (stepObject c d sd pp uid obj))) = [] \<and>
         (hasFired ob = Some True \<longrightarrow>
            s_spawns (stepObject c' d' sd' pp' uid' ob) = [] \<and>
            hasFired (s_obj (stepObject c' d' sd' pp' uid' ob)) = Some True)"
proof -
  have f: "fires (moved d sd obj)"
    using assms by (simp add: fires_moved)
  have never: "s_spawns (stepObject c' d' sd' pp' uid' x) = [] \<and>
      hasFired (s_obj (stepObject c' d' sd' pp' uid' x)) = Some True"
    if "hasFired x = Some True" for x
    using that by (simp add: s_spawns_stepObject hasFired_stepObject fires_moved)
  have h: "hasFired (s_obj (stepObject c d sd pp uid obj)) = Some True"
    using f by (simp add: hasFired_stepObject)
  have "s_spawns (stepObject c d sd pp uid obj) = [missile uid (moved d sd obj)]"
    using f by (simp add: s_spawns_stepObject)
  moreover have "position (missile uid (moved d sd obj)) =
      (vx (position obj), 1, vz (position obj) + d + 2)"
    using assms(1) by (simp add: missile_def moved_simps moveAmount_def)
  moreover have "obj_type (missile uid (moved d sd obj)) = MISSILE"
    by (simp add: missile_def)
  ultimately show ?thesis
    using h never by simp
qed

text \<open>
  The amended C4 at the alien of the counterexample: one missile at \<open>(0, 1, -87)\<close>, the
  flag set, and nothing spawned by the next step.
\<close>

theorem alien_fires_missile_witness:
  "map obj_type (s_spawns (stepObject tun0 2 0.05 (0, 0, 0) 10 (alienObj tun0 7 0 (-91)))) =
     [MISSILE] \<and>
   map position (s_spawns (stepObject tun0 2 0.05 (0, 0, 0) 10 (alienObj tun0 7 0 (-91)))) =
     [(0, 1, -87)] \<and>
   hasFired (s_obj (stepObject tun0 2 0.05 (0, 0, 0) 10 (alienObj tun0 7 0 (-91)))) = Some True \<and>
   s_spawns (stepObject tun0 2 0.05 (0, 0, 0) 11
     (s_obj (stepObject tun0 2 0.05 (0, 0, 0) 10 (alienObj tun0 7 0 (-91))))) = []"
proof -
  let ?a = "alienObj tun0 7 0 (-91)"
  have h1: "obj_type ?a = ALIEN" and h2: "active ?a" and h3: "hasFired ?a \<noteq> Some True"
    by (simp_all add: alienObj_def)
  have h4: "vz (position ?a) + 2 > -90"
    by (simp add: alienObj_def vz_def)
  have pos: "(vx (position ?a), 1, vz (position ?a) + 2 + 2) = (0, 1, -87)"
    by (simp add: alienObj_def vx_def vz_def)
  show ?thesis
    using alien_fires_missile
      [OF h1 h2 h3 h4, of tun0 "0.05" "(0, 0, 0)" 10 tun0 2 "0.05" "(0, 0, 0)" 11 ?a]
    unfolding pos by blast
qed

section \<open>Damage and protection\<close>

text \<open>
  C6.  Let a damage source (obstacle, alien or missile) collide with the player: it is
  active, its move straddles the player's forward coordinate within the tolerance, it is
  within the lane tolerance and the vertical bands overlap.  Then the step deactivates
  the entity and dispatches one \<^verbatim>\<open>player-hit\<close>, whoever the player is; the
  listener calls \<^verbatim>\<open>takeDamage\<close> exactly once when the player is neither
  invincible nor immortal, and not at all when the player is invincible or immortal.
\<close>

theorem protected_hit_consumes_entity:
  assumes "isDamageSource obj" and "active obj"
    and "vz (position obj) < vz pp + 2"
    and "vz (position obj) + moveAmount d sd obj > vz pp - 2"
    and "\<bar>vx (position obj) - vx pp\<bar> < 0.8"
    and "isHit pp obj"
  shows "\<not> active (s_obj (stepObject c d sd pp uid obj)) \<and>
         s_events (stepObject c d sd pp uid obj) =
           [PlayerHit, ParticleBurst (position (moved d sd obj)) ''#ff9999''] \<and>
         snd (dispatch imm now (s_events (stepObject c d sd pp uid obj)) p) =
           (if isInvincible p \<or> imm then [] else [PlayDamage, TakeDamage])"
proof -
  let ?o2 = "if fires (moved d sd obj) then (moved d sd obj)\<lparr>hasFired := Some True\<rparr>
             else moved d sd obj"
  have t: "obj_type ?o2 = obj_type obj" "active ?o2" "position ?o2 = position (moved d sd obj)"
    using assms(2) by (simp_all add: moved_simps)
  have np: "obj_type ?o2 \<noteq> SHOP_PORTAL" and ds: "isDamageSource ?o2"
    using assms(1) t(1) by (auto simp add: isDamageSource_def)
  have hit: "isHit pp ?o2"
    using assms(6) isHit_cong [of ?o2 obj pp] by (simp add: moved_simps)
  have z: "vz (position ?o2) > vz pp - 2" and x: "\<bar>vx (position ?o2) - vx pp\<bar> < 0.8"
    using assms(4,5) by (simp_all add: moved_simps)
  have c: "collide pp (vz (position obj)) ?o2 =
      \<lparr>c_obj = ?o2\<lparr>active := False\<rparr>, c_keep = True,
       c_events = [PlayerHit, ParticleBurst (position ?o2) ''#ff9999''], c_changed = True\<rparr>"
    unfolding collide_def Let_def using t(2) np ds hit z x assms(3) by simp
  have ev: "s_events (stepObject c d sd pp uid obj) =
      [PlayerHit, ParticleBurst (position (moved d sd obj)) ''#ff9999'']"
    unfolding s_events_stepObject c using t(3) by simp
  have ac: "\<not> active (s_obj (stepObject c d sd pp uid obj))"
    unfolding s_obj_stepObject c by simp
  show ?thesis
    unfolding ev using ac by (simp add: checkHit_def)
qed

text \<open>
  C6 at a concrete collision: an alien in the centre lane passes a grounded player at the
  origin.  It is deactivated; an invincible player and an immortal player take no
  damage, an unprotected player takes damage once.
\<close>

theorem protected_hit_consumes_entity_witness:
  "\<not> active (s_obj (stepObject tun0 2 0.05 (0, 0, 0) 10 (alienObj tun0 7 0 (-1)))) \<and>
   snd (dispatch False 1000 (s_events (stepObject tun0 2 0.05 (0, 0, 0) 10 (alienObj tun0 7 0 (-1))))
         (player0\<lparr>isInvincible := True\<rparr>)) = [] \<and>
   snd (dispatch True 1000 (s_events (stepObject tun0 2 0.05 (0, 0, 0) 10 (alienObj tun0 7 0 (-1))))
         player0) = [] \<and>
   snd (dispatch False 1000 (s_events (stepObject tun0 2 0.05 (0, 0, 0) 10 (alienObj tun0 7 0 (-1))))
         player0) = [PlayDamage, TakeDamage]"
proof -
  let ?a = "alienObj tun0 7 0 (-1)"
  let ?pp = "(0, 0, 0) :: vec3"
  have h1: "isDamageSource ?a" and h2: "active ?a"
    by (simp_all add: isDamageSource_def alienObj_def)
  have h3: "vz (position ?a) < vz ?pp + 2"
    and h4: "vz (position ?a) + moveAmount 2 0.05 ?a > vz ?pp - 2"
    and h5: "\<bar>vx (position ?a) - vx ?pp\<bar> < 0.8"
    by (simp_all add: alienObj_def vx_def vz_def moveAmount_def)
  have h6: "isHit ?pp ?a"
    by (simp add: isHit_def alienObj_def vy_def)
  note t = protected_hit_consumes_entity [OF h1 h2 h3 h4 h5 h6, of tun0 10]
  note t3 = t [THEN conjunct2, THEN conjunct2]
  have a: "\<not> active (s_obj (stepObject tun0 2 0.05 ?pp 10 ?a))"
    using t [of False 1000 player0] by blast
  have b: "snd (dispatch False 1000 (s_events (stepObject tun0 2 0.05 ?pp 10 ?a))
         (player0\<lparr>isInvincible := True\<rparr>)) = []"
    unfolding t3 by simp
  have c: "snd (dispatch True 1000 (s_events (stepObject tun0 2 0.05 ?pp 10 ?a)) player0) = []"
    unfolding t3 by simp
  have d: "snd (dispatch False 1000 (s_events (stepObject tun0 2 0.05 ?pp 10 ?a)) player0) =
      [PlayDamage, TakeDamage]"
    unfolding t3 by (simp add: player0_def)
  from a b c d show ?thesis by blast
qed

section \<open>The spawn policy\<close>

lemma availableIndices_empty:
  "{0..<6} \<subseteq> set collected \<Longrightarrow> availableIndices collected = []"
  by (auto simp add: availableIndices_def target_def filter_empty_conv)

lemma sp_nextLetter_cases:
  "sp_nextLetter (spawnPolicy c s dT nLD r uid kept) =
     (if LETTER \<in> set (map obj_type (sp_new (spawnPolicy c s dT nLD r uid kept)))
      then nLD + getLetterInterval (level s) else nLD)"
  by (simp add: spawnPolicy_def Let_def letterObj_def gemObj_def alienObj_def obstacleObj_def)




text \<open>
  C8, as stated, fails.  A letter is due and all six letters are collected, but the
  furthest static entity is at \<open>z = -100\<close>, beyond the spawn distance of 60: the spawn
  policy is not entered and no gem is spawned.
\<close>

theorem closed_gate_counterexample:
  "(150 :: real) \<le> 200 \<and>
   availableIndices (collectedLetters (store0\<lparr>collectedLetters := [0, 1, 2, 3, 4, 5]\<rparr>)) = [] \<and>
   sp_new (spawnPolicy tun0 (store0\<lparr>collectedLetters := [0, 1, 2, 3, 4, 5]\<rparr>) 200 150
            (\<lambda>k. 0.5) 1 [obstacleObj tun0 0 0 (-100)]) = []"
  by code_simp

text \<open>
  C8, amended.  In a Playing frame in which the road is open
  (\<open>furthestZ > -SPAWN_DISTANCE\<close>), the letter is due (the distance travelled, this
  frame's advance included, has reached \<open>nextLetterDistance\<close>) and all six letters are
  collected, the spawn policy spawns exactly one entity, a gem, and leaves
  \<open>nextLetterDistance\<close> unchanged.  In every frame, \<open>nextLetterDistance\<close> advances (by
  the letter interval of the level) exactly when a letter is spawned.
\<close>

theorem exhausted_pool_spawns_gem:
  assumes "furthestZ kept > - SPAWN_DISTANCE c" and "nLD \<le> dT"
    and "{0..<6} \<subseteq> set (collectedLetters s)"
  shows "map obj_type (sp_new (spawnPolicy c s dT nLD r uid kept)) = [GEM] \<and>
         sp_nextLetter (spawnPolicy c s dT nLD r uid kept) = nLD \<and>
         sp_nextLetter (spawnPolicy c' s' dT' nLD' r' uid' kept') =
           (if LETTER \<in> set (map obj_type (sp_new (spawnPolicy c' s' dT' nLD' r' uid' kept')))
            then nLD' + getLetterInterval (level s') else nLD')"
proof -
  have a: "availableIndices (collectedLetters s) = []"
    using assms(3) by (rule availableIndices_empty)
  have "map obj_type (sp_new (spawnPolicy c s dT nLD r uid kept)) = [GEM]"
    using assms(1,2) a by (simp add: spawnPolicy_def Let_def gemObj_def)
  moreover have "sp_nextLetter (spawnPolicy c s dT nLD r uid kept) = nLD"
    using assms(1,2) a by (simp add: spawnPolicy_def Let_def)
  ultimately show ?thesis
    using sp_nextLetter_cases [of c' s' dT' nLD' r' uid' kept'] by simp
qed

text \<open>
  The amended C8 with the furthest static entity at \<open>z = -40\<close>: one gem, and
  \<open>nextLetterDistance\<close> stays at 150.
\<close>

theorem exhausted_pool_spawns_gem_witness:
  "map obj_type (sp_new (spawnPolicy tun0 (store0\<lparr>collectedLetters := [0, 1, 2, 3, 4, 5]\<rparr>)
            200 150 (\<lambda>k. 0.5) 1 [obstacleObj tun0 0 0 (-40)])) = [GEM] \<and>
   sp_nextLetter (spawnPolicy tun0 (store0\<lparr>collectedLetters := [0, 1, 2, 3, 4, 5]\<rparr>)
            200 150 (\<lambda>k. 0.5) 1 [obstacleObj tun0 0 0 (-40)]) = 150"
proof -
  have h1: "furthestZ [obstacleObj tun0 0 0 (-40)] > - SPAWN_DISTANCE tun0"
    by (simp add: furthestZ_def obstacleObj_def vz_def tun0_def)
  have h2: "(150 :: real) \<le> 200" by simp
  have h3: "{0..<6} \<subseteq> set (collectedLetters (store0\<lparr>collectedLetters := [0, 1, 2, 3, 4, 5]\<rparr>))"
    by (auto simp add: less_Suc_eq eval_nat_numeral)
  show ?thesis
    using exhausted_pool_spawns_gem
      [OF h1 h2 h3, of "\<lambda>k. 0.5" 1 tun0 store0 2 150 "\<lambda>k. 0.5" 1 "[]"]
    by blast
qed

section \<open>Shop portals\<close>

























section \<open>The player on a change of status\<close>

text \<open>
  C3, as stated, fails.  A player in lane 1 dies in mid-jump and the game restarts: the
  entity set is cleared and the jump state is reset, but the lane is still 1 (also after
  the lane effect for three lanes).
\<close>

theorem lane_kept_counterexample:
  "objectsRef (fst (levelEffect tun0 PLAYING 1 (lm0\<lparr>prevStatus := GAME_OVER\<rparr>))) = [] \<and>
   lane (clampLane 3 (resetOnStatus PLAYING (player0\<lparr>lane := 1, isJumping := True\<rparr>))) = 1"
  by code_simp

text \<open>
  C3, amended.  The entity set is cleared on a restart after death and on a restart after
  victory; it is cleared whenever the status is Menu, and the change from Menu to Playing
  at the same level leaves it empty, so a fresh run starts empty too.  On every change of
  the status to Playing the player is reset to grounded: not jumping, zero vertical
  velocity, zero jumps used, and height 0 when the player group is mounted.  The lane is
  not reset: it is the lane the player occupied before.
\<close>

theorem playing_transition_resets:
  "objectsRef (fst (levelEffect c PLAYING lvl (st\<lparr>prevStatus := GAME_OVER\<rparr>))) = [] \<and>
   objectsRef (fst (levelEffect c PLAYING lvl (st\<lparr>prevStatus := VICTORY\<rparr>))) = [] \<and>
   objectsRef (fst (levelEffect c MENU lvl st)) = [] \<and>
   objectsRef (fst (levelEffect c PLAYING lvl (fst (levelEffect c MENU lvl st)))) = [] \<and>
   \<not> isJumping (resetOnStatus PLAYING p) \<and>
   velocityY (resetOnStatus PLAYING p) = 0 \<and>
   jumpsPerformed (resetOnStatus PLAYING p) = 0 \<and>
   groupY (resetOnStatus PLAYING p) = (case groupY p of None \<Rightarrow> None | Some y \<Rightarrow> Some 0) \<and>
   lane (resetOnStatus PLAYING p) = lane p"
  by (simp add: levelEffect_def resetOnStatus_def Let_def)

section \<open>Lane bounds\<close>

lemma clampLane_id: "\<bar>lane p\<bar> \<le> lc div 2 \<Longrightarrow> clampLane lc p = p"
  by (simp add: clampLane_def)

lemma lane_triggerJump: "lane (fst (triggerJump dj p)) = lane p"
  by (simp add: triggerJump_def Let_def)

lemma lane_handleKeyDown:
  "0 \<le> lc div 2 \<Longrightarrow> \<bar>lane p\<bar> \<le> lc div 2 \<Longrightarrow>
   \<bar>lane (fst (handleKeyDown st lc dj k p))\<bar> \<le> lc div 2"
  by (auto simp: handleKeyDown_def Let_def lane_triggerJump)

lemma lane_handleTouchEnd:
  "0 \<le> lc div 2 \<Longrightarrow> \<bar>lane p\<bar> \<le> lc div 2 \<Longrightarrow>
   \<bar>lane (fst (handleTouchEnd st lc dj x y p))\<bar> \<le> lc div 2"
  by (auto simp: handleTouchEnd_def Let_def lane_triggerJump)

lemma lane_applyInput:
  assumes "0 \<le> lc div 2" and "\<bar>lane p\<bar> \<le> lc div 2"
  shows "\<bar>lane (applyInput st lc dj p i)\<bar> \<le> lc div 2"
proof (cases i)
  case (Key k)
  have "\<bar>lane (fst (handleKeyDown st lc dj k p))\<bar> \<le> lc div 2"
    using assms by (rule lane_handleKeyDown)
  then show ?thesis
    by (simp add: applyInput_def Key clampLane_id)
next
  case (Touch x y)
  have "\<bar>lane (fst (handleTouchEnd st lc dj x y p))\<bar> \<le> lc div 2"
    using assms by (rule lane_handleTouchEnd)
  then show ?thesis
    by (simp add: applyInput_def Touch clampLane_id)
qed

lemma lane_applyInputs:
  "0 \<le> lc div 2 \<Longrightarrow> \<bar>lane p\<bar> \<le> lc div 2 \<Longrightarrow>
   \<bar>lane (applyInputs st lc dj p inputs)\<bar> \<le> lc div 2"
  unfolding applyInputs_def
  by (induction inputs arbitrary: p) (simp_all add: lane_applyInput)

text \<open>
  C9.  With \<open>laneCount = 5\<close> and the player starting in lane 0, the logical lane is
  within \<open>[-2, 2]\<close> after every input of every finite input sequence: after the first
  \<open>n\<close> inputs, for every \<open>n\<close>.  The inputs are key presses and touch gestures
  (so the lane moves left and right among them), under any game status.
\<close>

theorem lane_stays_in_range:
  "- 2 \<le> lane (applyInputs st 5 dj (p\<lparr>lane := 0\<rparr>) (take n inputs)) \<and>
   lane (applyInputs st 5 dj (p\<lparr>lane := 0\<rparr>) (take n inputs)) \<le> 2"
proof -
  have "\<bar>lane (applyInputs st 5 dj (p\<lparr>lane := 0\<rparr>) (take n inputs))\<bar> \<le> 5 div 2"
    by (rule lane_applyInputs) simp_all
  then show ?thesis by (simp add: abs_le_iff)
qed

section \<open>The distance callback\<close>









end
